theory Spec2Isabelle
  imports Complex_Main "HOL-Library.AList"
begin

section \<open>Data model (app/models.py)\<close>

text \<open>
  Timestamps are whole seconds since the epoch, durations (\<open>timedelta\<close>) whole seconds:
  this is the resolution of the \<open>exp\<close> claim of a token.
\<close>

type_synonym datetime = int
type_synonym timedelta = int

definition timedelta_minutes :: "int \<Rightarrow> timedelta" where
  "timedelta_minutes m = 60 * m"

datatype UserRole = ADMIN | AGENT | CLIENT

text \<open>
  The columns of table \<open>users\<close>. The primary key \<open>id\<close> is named \<open>user_id\<close> here
  (\<open>id\<close> is the identity function of HOL). Nullable columns are options.
\<close>

record User =
  user_id :: int
  email :: string
  username :: string
  hashed_password :: string
  first_name :: "string option"
  last_name :: "string option"
  phone_number :: "string option"
  profile_image_url :: "string option"
  role :: UserRole
  is_active :: bool
  is_verified :: bool
  created_at :: datetime
  updated_at :: datetime
  last_login :: "datetime option"

text \<open>
  An exception leaving a handler: FastAPI's \<open>HTTPException\<close> with its status code, detail
  and headers, or any other Python exception, named by its class, that nothing catches.
\<close>

datatype exn =
  HTTPException (status_code: nat) (detail: string) (headers: "(string \<times> string) list")
  | Uncaught string

section \<open>The session: rows of table users\<close>

text \<open>
  \<open>db.query(User).filter(username == s | email == s).first()\<close>: the first row, in table
  order, whose username or email is \<open>s\<close>.
\<close>

definition first_by_username_or_email :: "User list \<Rightarrow> string \<Rightarrow> User option" where
  "first_by_username_or_email db s = find (\<lambda>u. username u = s \<or> email u = s) db"

definition first_by_email :: "User list \<Rightarrow> string \<Rightarrow> User option" where
  "first_by_email db s = find (\<lambda>u. email u = s) db"

text \<open>
  \<open>db.commit()\<close> after attributes of the loaded row \<open>old\<close> were set, giving \<open>new\<close>.
  A row with no net change issues no UPDATE. An UPDATE writes the changed columns to the
  row of that primary key, and column \<open>updated_at\<close> (declared \<open>onupdate=func.now()\<close>)
  takes the database clock \<open>db_now\<close>. The result is the refreshed object and the table.
\<close>

definition commit :: "User \<Rightarrow> User \<Rightarrow> datetime \<Rightarrow> User list \<Rightarrow> User \<times> User list" where
  "commit old new db_now db =
     (if new = old then (old, db)
      else (let row = new\<lparr>updated_at := db_now\<rparr>
            in (row, map (\<lambda>r. if user_id r = user_id old then row else r) db)))"

section \<open>The libraries the code calls\<close>

text \<open>
  passlib's \<open>CryptContext\<close> is not part of the repository, so the code is modelled over
  any context: \<open>ctx_verify\<close> returns a boolean or raises, \<open>ctx_hash\<close> takes the salt it
  draws as an explicit argument.
\<close>

record CryptContext =
  ctx_verify :: "string \<Rightarrow> string \<Rightarrow> exn + bool"
  ctx_hash :: "string \<Rightarrow> string \<Rightarrow> string"

text \<open>
  The claims of a token are a Python dict, kept as an association list in insertion
  order; \<open>dict.get\<close> is \<open>map_of\<close> and \<open>dict.update\<close> is \<open>AList.update\<close>.
\<close>

datatype jvalue = Str string | Num int

type_synonym claims = "(string \<times> jvalue) list"

text \<open>
  The ways \<open>jwt.decode\<close> fails, after section 4.2 of the specification. In the jose library
  each of them is a \<open>JWTError\<close> (or a subclass of it), which is what the handler catches.
\<close>

datatype JWTError = BadSignature | Malformed | Expired

text \<open>
  The jose library is not part of the repository either. The code is modelled over any
  pair of \<open>jwt.encode(claims, key, algorithm)\<close> and \<open>jwt.decode(token, key, algorithms)\<close>;
  the time at which \<open>decode\<close> reads the clock is its last argument. Tokens are opaque.
\<close>

record 'tok jose =
  jwt_encode :: "claims \<Rightarrow> string \<Rightarrow> string \<Rightarrow> 'tok"
  jwt_decode :: "'tok \<Rightarrow> string \<Rightarrow> string list \<Rightarrow> datetime \<Rightarrow> JWTError + claims"

section \<open>app/auth.py\<close>

definition SECRET_KEY :: string where
  "SECRET_KEY = ''your-secret-key-here-change-in-production''"

definition ALGORITHM :: string where
  "ALGORITHM = ''HS256''"

definition ACCESS_TOKEN_EXPIRE_MINUTES :: int where
  "ACCESS_TOKEN_EXPIRE_MINUTES = 30"

definition verify_password :: "CryptContext \<Rightarrow> string \<Rightarrow> string \<Rightarrow> exn + bool" where
  "verify_password pwd_context plain_password hashed =
     ctx_verify pwd_context plain_password hashed"


text \<open>
  \<open>authenticate_user\<close> returns the user or Python's \<open>False\<close>, here \<open>None\<close>. The \<open>or\<close>
  of the source short-circuits: no verification is attempted when no row matches. An
  exception of the verification propagates.
\<close>

definition authenticate_user ::
  "CryptContext \<Rightarrow> User list \<Rightarrow> string \<Rightarrow> string \<Rightarrow> exn + User option" where
  "authenticate_user pwd_context db uname password =
     (case first_by_username_or_email db uname of
        None \<Rightarrow> Inr None
      | Some user \<Rightarrow>
          (case verify_password pwd_context password (hashed_password user) of
             Inl e \<Rightarrow> Inl e
           | Inr ok \<Rightarrow> if \<not> ok then Inr None else Inr (Some user)))"

text \<open>
  \<open>create_access_token\<close>: \<open>if expires_delta:\<close> tests truthiness, so both \<open>None\<close> and a
  zero \<open>timedelta\<close> take the \<open>else\<close> branch. \<open>now\<close> is the clock read by the function.
\<close>

definition create_access_token ::
  "'tok jose \<Rightarrow> claims \<Rightarrow> timedelta option \<Rightarrow> datetime \<Rightarrow> 'tok" where
  "create_access_token J data expires_delta now =
     (let expire = (case expires_delta of
                      Some d \<Rightarrow> if d \<noteq> 0 then now + d else now + timedelta_minutes 15
                    | None \<Rightarrow> now + timedelta_minutes 15);
          to_encode = AList.update ''exp'' (Num expire) data
      in jwt_encode J to_encode SECRET_KEY ALGORITHM)"

definition credentials_exception :: exn where
  "credentials_exception =
     HTTPException 401 ''Could not validate credentials'' [(''WWW-Authenticate'', ''Bearer'')]"

text \<open>
  \<open>get_current_user\<close>: every \<open>JWTError\<close> of \<open>jwt.decode\<close> and a missing \<open>sub\<close> raise
  \<open>credentials_exception\<close>, and so does a subject that matches no row. A \<open>sub\<close> that is
  not a string fails the validation of \<open>TokenData\<close>, which is no \<open>JWTError\<close>. On success
  \<open>last_login\<close> is set to the clock \<open>now\<close> and committed. The result is the outcome and
  the table afterwards.
\<close>

definition get_current_user ::
  "'tok jose \<Rightarrow> 'tok \<Rightarrow> User list \<Rightarrow> datetime \<Rightarrow> datetime \<Rightarrow> (exn + User) \<times> User list" where
  "get_current_user J token db now db_now =
     (case jwt_decode J token SECRET_KEY [ALGORITHM] now of
        Inl e \<Rightarrow> (Inl credentials_exception, db)
      | Inr payload \<Rightarrow>
          (case map_of payload ''sub'' of
             None \<Rightarrow> (Inl credentials_exception, db)
           | Some (Num n) \<Rightarrow> (Inl (Uncaught ''ValidationError''), db)
           | Some (Str name) \<Rightarrow>
               (case first_by_username_or_email db name of
                  None \<Rightarrow> (Inl credentials_exception, db)
                | Some user \<Rightarrow>
                    (let (user', db') = commit user (user\<lparr>last_login := Some now\<rparr>) db_now db
                     in (Inr user', db')))))"


section \<open>app/api/auth.py\<close>

definition reset_acknowledgment :: "(string \<times> string) list" where
  "reset_acknowledgment =
     [(''message'', ''If this email is registered, you will receive a password reset link.'')]"

text \<open>
  \<open>forgot_password\<close> receives the email of a validated \<open>EmailSchema\<close> and returns its
  response body and the lines it prints.
\<close>

definition forgot_password :: "string \<Rightarrow> User list \<Rightarrow> (string \<times> string) list \<times> string list" where
  "forgot_password data_email db =
     (case first_by_email db data_email of
        None \<Rightarrow> (reset_acknowledgment, [])
      | Some user \<Rightarrow>
          (reset_acknowledgment,
           [''[DEBUG] Password reset requested for user: '' @ username user
              @ '' ('' @ email user @ '')'']))"

record 'tok Token =
  access_token :: 'tok
  token_type :: string

definition login_for_access_token ::
  "CryptContext \<Rightarrow> 'tok jose \<Rightarrow> string \<Rightarrow> string \<Rightarrow> User list \<Rightarrow> datetime \<Rightarrow> exn + 'tok Token" where
  "login_for_access_token pwd_context J form_username form_password db now =
     (case authenticate_user pwd_context db form_username form_password of
        Inl e \<Rightarrow> Inl e
      | Inr None \<Rightarrow>
          Inl (HTTPException 401 ''Incorrect username or password''
                 [(''WWW-Authenticate'', ''Bearer'')])
      | Inr (Some user) \<Rightarrow>
          if \<not> is_active user
          then Inl (HTTPException 401 ''User account is disabled''
                      [(''WWW-Authenticate'', ''Bearer'')])
          else (let access_token_expires = timedelta_minutes ACCESS_TOKEN_EXPIRE_MINUTES;
                    token = create_access_token J [(''sub'', Str (username user))]
                              (Some access_token_expires) now
                in Inr \<lparr>access_token = token, token_type = ''bearer''\<rparr>))"


definition refresh_access_token :: "'tok jose \<Rightarrow> User \<Rightarrow> datetime \<Rightarrow> 'tok Token" where
  "refresh_access_token J current_user now =
     (let access_token_expires = timedelta_minutes ACCESS_TOKEN_EXPIRE_MINUTES;
          token = create_access_token J [(''sub'', Str (username current_user))]
                    (Some access_token_expires) now
      in \<lparr>access_token = token, token_type = ''bearer''\<rparr>)"

section \<open>app/api/properties.py\<close>

datatype PropertyStatus = DRAFT | ACTIVE | SOLD | WITHDRAWN | PENDING





section \<open>The owner-or-role guard as the specification words it\<close>



section \<open>Symbolic libraries for concrete runs\<close>

text \<open>
  A symbolic stand-in for \<open>CryptContext(schemes=["bcrypt"])\<close>: a digest is the bcrypt
  prefix, the salt and the password. As passlib does, \<open>verify\<close> first identifies the scheme
  of the digest by its prefix and raises \<open>UnknownHashError\<close> when no configured scheme
  claims it; it returns a boolean only for a digest it identifies.
\<close>

definition symbolic_context :: CryptContext where
  "symbolic_context =
     \<lparr>ctx_verify = (\<lambda>secret hashed.
         if take 4 hashed \<noteq> ''$2b$'' then Inl (Uncaught ''UnknownHashError'')
         else Inr (dropWhile (\<lambda>c. c \<noteq> CHR ''$'') (drop 4 hashed) = CHR ''$'' # secret)),
      ctx_hash = (\<lambda>salt secret. ''$2b$'' @ salt @ ''$'' @ secret)\<rparr>"

text \<open>
  Modelled from the spec: the token codec of section 4.2 (the jose library is not under
  src/). A token either does not parse, or carries its claims, its algorithm and a
  signature; the signature is the symbolic MAC of the claims under a key. Verification
  "checks signature integrity first, then checks \<open>now < expires_at\<close>".
\<close>

datatype mac = Mac string string claims

datatype token = Jws (tok_claims: claims) (tok_alg: string) (tok_sig: mac) | Unparsable

definition symbolic_encode :: "claims \<Rightarrow> string \<Rightarrow> string \<Rightarrow> token" where
  "symbolic_encode c key alg = Jws c alg (Mac key alg c)"

fun symbolic_decode :: "token \<Rightarrow> string \<Rightarrow> string list \<Rightarrow> datetime \<Rightarrow> JWTError + claims" where
  "symbolic_decode Unparsable key algs now = Inl Malformed"
| "symbolic_decode (Jws c alg s) key algs now =
     (if alg \<notin> set algs then Inl Malformed
      else if s \<noteq> Mac key alg c then Inl BadSignature
      else (case map_of c ''exp'' of
              None \<Rightarrow> Inr c
            | Some (Str x) \<Rightarrow> Inl Malformed
            | Some (Num expires_at) \<Rightarrow> if now < expires_at then Inr c else Inl Expired))"

definition symbolic_jose :: "token jose" where
  "symbolic_jose = \<lparr>jwt_encode = symbolic_encode, jwt_decode = symbolic_decode\<rparr>"


text \<open>The scenario of section 8: identity 1, alice, a client, active.\<close>

definition alice :: User where
  "alice = \<lparr>user_id = 1, email = ''alice@example.com'', username = ''alice'',
            hashed_password = ''$2b$salt$pw'', first_name = None, last_name = None,
            phone_number = None, profile_image_url = None, role = CLIENT,
            is_active = True, is_verified = False, created_at = 0, updated_at = 0,
            last_login = None\<rparr>"

text \<open>
  The token \<open>T\<close> of the scenario, issued for alice at \<open>t0 = 1000\<close> for 30 minutes, the
  same token with its signature segment tampered, alice with her account disabled, and a
  property owned by identity 7.
\<close>

definition token_T :: token where
  "token_T = create_access_token symbolic_jose [(''sub'', Str ''alice'')]
               (Some (timedelta_minutes 30)) 1000"

definition tampered_T :: token where
  "tampered_T = Jws (tok_claims token_T) (tok_alg token_T)
                  (Mac ''tampered'' (tok_alg token_T) (tok_claims token_T))"



section \<open>Helper lemmas\<close>


lemma alice_lookup: "first_by_username_or_email [alice] ''alice'' = Some alice"
  by (simp add: first_by_username_or_email_def alice_def)

lemma bob_lookup: "first_by_username_or_email [alice] ''bob'' = None"
  by (simp add: first_by_username_or_email_def alice_def)

lemma alice_wrong_password:
  "verify_password symbolic_context ''wrong'' (hashed_password alice) = Inr False"
  by (simp add: verify_password_def symbolic_context_def alice_def)


lemma tampered_decode:
  "jwt_decode symbolic_jose tampered_T SECRET_KEY [ALGORITHM] 2000 = Inl BadSignature"
  by (simp add: symbolic_jose_def tampered_T_def token_T_def create_access_token_def
      symbolic_encode_def SECRET_KEY_def ALGORITHM_def timedelta_minutes_def Let_def)

lemma unparsable_decode:
  "jwt_decode symbolic_jose Unparsable SECRET_KEY [ALGORITHM] 2000 = Inl Malformed"
  by (simp add: symbolic_jose_def)

lemma expired_decode:
  "jwt_decode symbolic_jose token_T SECRET_KEY [ALGORITHM] 3000 = Inl Expired"
  by (simp add: symbolic_jose_def token_T_def create_access_token_def
      symbolic_encode_def timedelta_minutes_def Let_def)

lemma last_login_update_eq: "(u\<lparr>last_login := x\<rparr> = u) = (last_login u = x)"
proof
  assume "u\<lparr>last_login := x\<rparr> = u"
  then have "last_login (u\<lparr>last_login := x\<rparr>) = last_login u" by simp
  then show "last_login u = x" by simp
next
  assume "last_login u = x"
  then show "u\<lparr>last_login := x\<rparr> = u" by auto
qed


lemma symbolic_unknown_hash:
  "ctx_verify symbolic_context ''pw'' ''not-a-digest'' = Inl (Uncaught ''UnknownHashError'')"
  by (simp add: symbolic_context_def)

lemma not_a_digest_unproduced: "ctx_hash symbolic_context salt pw \<noteq> ''not-a-digest''"
  by (simp add: symbolic_context_def)





lemma alice_email_lookup: "first_by_email [alice] ''alice@example.com'' = Some alice"
  by (simp add: first_by_email_def alice_def)

lemma nobody_email_lookup: "first_by_email [alice] ''nobody@example.com'' = None"
  by (simp add: first_by_email_def alice_def)

lemma find_SomeD: "find P xs = Some x \<Longrightarrow> x \<in> set xs \<and> P x"
  by (induction xs) (auto split: if_splits)


lemma token_T_resolves:
  "get_current_user symbolic_jose token_T [alice] 1600 1600
     = (Inr (alice\<lparr>last_login := Some 1600, updated_at := 1600\<rparr>),
        [alice\<lparr>last_login := Some 1600, updated_at := 1600\<rparr>])"
  by (simp add: get_current_user_def symbolic_jose_def token_T_def create_access_token_def
      symbolic_encode_def timedelta_minutes_def Let_def
      SECRET_KEY_def ALGORITHM_def first_by_username_or_email_def alice_def commit_def)






section \<open>Authenticator\<close>

text \<open>
  C1. Whatever the stored users, the identifier and the password: when the identifier
  matches no user's username or email, and when it matches a user whose stored hash the
  password fails to verify against, \<open>authenticate_user\<close> returns one and the same value,
  Python's \<open>False\<close>, and the login endpoint turns both into the same 401 "Incorrect
  username or password". The caller cannot tell the two failures apart.
\<close>

theorem authenticate_user_failures_indistinguishable:
  assumes "first_by_username_or_email db1 ident1 = None"
    and "first_by_username_or_email db2 ident2 = Some user"
    and "verify_password pwd_context pw2 (hashed_password user) = Inr False"
  shows "authenticate_user pwd_context db1 ident1 pw1 = Inr None \<and>
         authenticate_user pwd_context db2 ident2 pw2 = Inr None \<and>
         login_for_access_token pwd_context J ident1 pw1 db1 now1
           = Inl (HTTPException 401 ''Incorrect username or password''
                    [(''WWW-Authenticate'', ''Bearer'')]) \<and>
         login_for_access_token pwd_context J ident2 pw2 db2 now2
           = Inl (HTTPException 401 ''Incorrect username or password''
                    [(''WWW-Authenticate'', ''Bearer'')])"
  using assms by (simp add: authenticate_user_def login_for_access_token_def)

theorem authenticate_user_failures_indistinguishable_witness:
  "first_by_username_or_email [alice] ''bob'' = None \<and>
   first_by_username_or_email [alice] ''alice'' = Some alice \<and>
   verify_password symbolic_context ''wrong'' (hashed_password alice) = Inr False \<and>
   authenticate_user symbolic_context [alice] ''bob'' ''pw'' = Inr None \<and>
   authenticate_user symbolic_context [alice] ''alice'' ''wrong'' = Inr None \<and>
   login_for_access_token symbolic_context symbolic_jose ''bob'' ''pw'' [alice] 1000
     = login_for_access_token symbolic_context symbolic_jose ''alice'' ''wrong'' [alice] 1000"
  using authenticate_user_failures_indistinguishable
          [OF bob_lookup alice_lookup alice_wrong_password,
           where ?pw1.0 = "''pw''" and J = symbolic_jose and ?now1.0 = 1000 and ?now2.0 = 1000]
        bob_lookup alice_lookup alice_wrong_password
  by simp

section \<open>Password hasher\<close>

text \<open>
  C5, as the code has it. \<open>verify_password\<close> hands the digest to the password context and
  has no handler of its own: it returns false exactly when the context returns false, and
  every exception the context raises on a digest propagates to the caller. A digest the
  context cannot identify is therefore an exception, not a false result.
\<close>

theorem verify_password_propagates:
  "(verify_password pwd_context plain hashed = Inr False
      \<longleftrightarrow> ctx_verify pwd_context plain hashed = Inr False) \<and>
   (\<forall>e. ctx_verify pwd_context plain hashed = Inl e
      \<longrightarrow> verify_password pwd_context plain hashed = Inl e)"
  by (simp add: verify_password_def)

theorem verify_password_propagates_witness:
  "ctx_verify symbolic_context ''pw'' ''not-a-digest'' = Inl (Uncaught ''UnknownHashError'') \<and>
   verify_password symbolic_context ''pw'' ''not-a-digest'' = Inl (Uncaught ''UnknownHashError'')"
  using verify_password_propagates [of symbolic_context "''pw''" "''not-a-digest''"]
        symbolic_unknown_hash
  by blast

text \<open>
  C5 as the specification states it (false, never an exception, on every malformed digest)
  fails on the digest \<open>not-a-digest\<close>, which the hasher never produces and no scheme
  of the context identifies.
\<close>

theorem verify_password_malformed_counterexample:
  "verify_password symbolic_context ''pw'' ''not-a-digest'' \<noteq> Inr False \<and>
   verify_password symbolic_context ''pw'' ''not-a-digest'' = Inl (Uncaught ''UnknownHashError'')"
  by (simp add: verify_password_def symbolic_context_def)

section \<open>Token codec\<close>

text \<open>
  C4, as the code has it. Called without a ttl, \<open>create_access_token\<close> sets the expiry to
  the issuance time plus 15 minutes. The 30 minutes of \<open>ACCESS_TOKEN_EXPIRE_MINUTES\<close> are
  no default of the issuance: they are the explicit ttl that the refresh endpoint passes.
\<close>

theorem create_access_token_default_ttl:
  "create_access_token J data None now
     = jwt_encode J (AList.update ''exp'' (Num (now + timedelta_minutes 15)) data)
         SECRET_KEY ALGORITHM \<and>
   access_token (refresh_access_token J current_user now)
     = jwt_encode J [(''sub'', Str (username current_user)),
                     (''exp'', Num (now + timedelta_minutes ACCESS_TOKEN_EXPIRE_MINUTES))]
         SECRET_KEY ALGORITHM"
  by (simp add: create_access_token_def refresh_access_token_def Let_def
      timedelta_minutes_def ACCESS_TOKEN_EXPIRE_MINUTES_def)

text \<open>
  C4 as the specification states it (30 minutes without an explicit ttl) fails: the token
  issued at time 1000 without a ttl expires at 1000 plus 15 minutes.
\<close>

theorem create_access_token_default_ttl_counterexample:
  "map_of (tok_claims (create_access_token symbolic_jose [(''sub'', Str ''alice'')] None 1000))
     ''exp'' = Some (Num (1000 + timedelta_minutes 15)) \<and>
   map_of (tok_claims (create_access_token symbolic_jose [(''sub'', Str ''alice'')] None 1000))
     ''exp'' \<noteq> Some (Num (1000 + timedelta_minutes ACCESS_TOKEN_EXPIRE_MINUTES))"
  by (simp add: create_access_token_def symbolic_jose_def symbolic_encode_def Let_def
      timedelta_minutes_def ACCESS_TOKEN_EXPIRE_MINUTES_def)

section \<open>Session resolver\<close>

text \<open>
  C2, as the code has it. Whatever the token library and whatever the reason for which
  decoding the presented token fails (bad signature, malformed structure, expiry in the
  past), \<open>get_current_user\<close> raises one and the same exception, 401 "Could not validate
  credentials", and leaves the table as it was. The caller cannot tell the reasons apart.
\<close>

theorem get_current_user_rejects_every_jwt_error:
  assumes "jwt_decode J token SECRET_KEY [ALGORITHM] now = Inl e"
  shows "get_current_user J token db now db_now = (Inl credentials_exception, db)"
  using assms by (simp add: get_current_user_def)

theorem get_current_user_rejects_every_jwt_error_witness:
  "jwt_decode symbolic_jose tampered_T SECRET_KEY [ALGORITHM] 2000 = Inl BadSignature \<and>
   get_current_user symbolic_jose tampered_T [alice] 2000 2000
     = (Inl credentials_exception, [alice])"
  using tampered_decode get_current_user_rejects_every_jwt_error [OF tampered_decode]
  by blast

text \<open>
  C2 as the specification states it (a distinct reason for each failure mode) fails: a
  token with a tampered signature, a token that does not parse and an expired token fail
  to decode for three different reasons, and the resolver rejects all three alike.
\<close>

theorem resolve_rejections_distinct_counterexample:
  "jwt_decode symbolic_jose tampered_T SECRET_KEY [ALGORITHM] 2000 = Inl BadSignature \<and>
   jwt_decode symbolic_jose Unparsable SECRET_KEY [ALGORITHM] 2000 = Inl Malformed \<and>
   jwt_decode symbolic_jose token_T SECRET_KEY [ALGORITHM] 3000 = Inl Expired \<and>
   fst (get_current_user symbolic_jose tampered_T [alice] 2000 2000)
     = Inl (HTTPException 401 ''Could not validate credentials''
              [(''WWW-Authenticate'', ''Bearer'')]) \<and>
   fst (get_current_user symbolic_jose Unparsable [alice] 2000 2000)
     = Inl (HTTPException 401 ''Could not validate credentials''
              [(''WWW-Authenticate'', ''Bearer'')]) \<and>
   fst (get_current_user symbolic_jose token_T [alice] 3000 3000)
     = Inl (HTTPException 401 ''Could not validate credentials''
              [(''WWW-Authenticate'', ''Bearer'')])"
  by (simp add: tampered_decode unparsable_decode expired_decode get_current_user_def
      credentials_exception_def)




text \<open>
  C9. Whenever \<open>get_current_user\<close> resolves a token to an identity, the identity it
  returns is a stored user whose last login is now the time of the call, the stored row
  carries that update when the function returns, and the id, username, email, password
  hash, role, active flag and verified flag are those of the stored user: only the last
  login (and the row's own \<open>updated_at\<close> stamp) changes.
\<close>

theorem get_current_user_frame:
  assumes "get_current_user J token db now db_now = (Inr r, db')"
  shows "\<exists>u \<in> set db.
           last_login r = Some now \<and> r \<in> set db' \<and>
           user_id r = user_id u \<and> username r = username u \<and> email r = email u \<and>
           hashed_password r = hashed_password u \<and> role r = role u \<and>
           is_active r = is_active u \<and> is_verified r = is_verified u"
proof -
  from assms obtain name u where
    u: "first_by_username_or_email db name = Some u"
    and c: "commit u (u\<lparr>last_login := Some now\<rparr>) db_now db = (r, db')"
    by (auto simp add: get_current_user_def Let_def
             split: sum.splits option.splits jvalue.splits prod.splits)
  from u have m: "u \<in> set db"
    by (simp add: first_by_username_or_email_def find_SomeD)
  show ?thesis
  proof (cases "last_login u = Some now")
    case True
    with c have "r = u" "db' = db" by (simp_all add: commit_def last_login_update_eq)
    with m True show ?thesis by auto
  next
    case False
    with c have r: "r = u\<lparr>last_login := Some now, updated_at := db_now\<rparr>"
      and d: "db' = map (\<lambda>x. if user_id x = user_id u then r else x) db"
      by (auto simp add: commit_def last_login_update_eq Let_def)
    from m d have "r \<in> set db'" by force
    with m r show ?thesis by auto
  qed
qed

theorem get_current_user_frame_witness:
  "get_current_user symbolic_jose token_T [alice] 1600 1600
     = (Inr (alice\<lparr>last_login := Some 1600, updated_at := 1600\<rparr>),
        [alice\<lparr>last_login := Some 1600, updated_at := 1600\<rparr>]) \<and>
   (\<exists>u \<in> set [alice].
      last_login (alice\<lparr>last_login := Some 1600, updated_at := 1600\<rparr>) = Some 1600 \<and>
      alice\<lparr>last_login := Some 1600, updated_at := 1600\<rparr>
        \<in> set [alice\<lparr>last_login := Some 1600, updated_at := 1600\<rparr>] \<and>
      user_id (alice\<lparr>last_login := Some 1600, updated_at := 1600\<rparr>) = user_id u \<and>
      username (alice\<lparr>last_login := Some 1600, updated_at := 1600\<rparr>) = username u \<and>
      email (alice\<lparr>last_login := Some 1600, updated_at := 1600\<rparr>) = email u \<and>
      hashed_password (alice\<lparr>last_login := Some 1600, updated_at := 1600\<rparr>)
        = hashed_password u \<and>
      role (alice\<lparr>last_login := Some 1600, updated_at := 1600\<rparr>) = role u \<and>
      is_active (alice\<lparr>last_login := Some 1600, updated_at := 1600\<rparr>) = is_active u \<and>
      is_verified (alice\<lparr>last_login := Some 1600, updated_at := 1600\<rparr>) = is_verified u)"
  using token_T_resolves get_current_user_frame [OF token_T_resolves]
  by (rule conjI)



section \<open>Password change and reset request\<close>



text \<open>
  C7. For an email that matches a stored identity and an email that matches none,
  \<open>forgot_password\<close> returns the same response, the generic acknowledgment: the response
  reveals nothing about the match.
\<close>

theorem forgot_password_same_acknowledgment:
  assumes "first_by_email db1 email1 = Some u"
    and "first_by_email db2 email2 = None"
  shows "fst (forgot_password email1 db1) = fst (forgot_password email2 db2) \<and>
         fst (forgot_password email1 db1) = reset_acknowledgment"
  using assms by (simp add: forgot_password_def)

theorem forgot_password_same_acknowledgment_witness:
  "first_by_email [alice] ''alice@example.com'' = Some alice \<and>
   first_by_email [alice] ''nobody@example.com'' = None \<and>
   fst (forgot_password ''alice@example.com'' [alice])
     = fst (forgot_password ''nobody@example.com'' [alice]) \<and>
   fst (forgot_password ''alice@example.com'' [alice]) = reset_acknowledgment"
  using forgot_password_same_acknowledgment [OF alice_email_lookup nobody_email_lookup]
        alice_email_lookup nobody_email_lookup
  by blast

section \<open>Authorization guard\<close>



end
